theory Spec2Isabelle
  imports Complex_Main "HOL-Library.List_Lexorder" "HOL-Library.Char_ord"
begin

section \<open>Data model\<close>

text \<open>
  A shallow embedding of \<^verbatim>\<open>src/pytics/profiler.py\<close>. A pandas DataFrame is an index
  (the row labels) and an ordered list of named columns; a column (Series) has a declared
  storage type (the string \<^verbatim>\<open>str(series.dtype)\<close>) and one cell per row. A missing
  cell (NaN, None, NaT) is \<open>NA\<close>.

  The model covers what the profiler computes itself: counts, the divisions behind the
  percentage fields, section gating, the size guard, duplicate analysis and schema
  reconciliation. Values that pandas, numpy, scipy, scikit-learn and plotly compute in
  floating point (describe, corr, histograms, KDE, mutual information, the plots, memory
  usage) are not represented, only whether the report holds them; string formatting to
  two decimals is not represented either, a percentage is the exact quotient.
\<close>

datatype cell = NA | IntV int | FloatV rat | StrV string | BoolV bool

record series =
  dtype :: string
  vals :: "cell list"

record DataFrame =
  index :: "nat list"
  columns :: "(string \<times> series) list"


datatype error = DataSizeError | ZeroDivisionError | KeyError

text \<open>
  A numpy float64 result: numpy scalar division by zero does not raise, it yields
  \<^verbatim>\<open>nan\<close> or \<^verbatim>\<open>inf\<close> (with a warning).
\<close>

datatype npfloat = Finite rat | NaN | PosInf

section \<open>Python, pandas and numpy primitives\<close>

text \<open>\<^verbatim>\<open>a / b\<close> on Python ints: raises ZeroDivisionError when \<open>b = 0\<close>.\<close>

definition py_truediv :: "nat \<Rightarrow> nat \<Rightarrow> error + rat" where
  "py_truediv a b = (if b = 0 then Inl ZeroDivisionError else Inr (of_nat a / of_nat b))"

text \<open>\<^verbatim>\<open>a / b\<close> where \<open>a\<close> is a numpy int64 (the result of \<^verbatim>\<open>.sum()\<close>).\<close>

definition np_truediv :: "nat \<Rightarrow> nat \<Rightarrow> npfloat" where
  "np_truediv a b =
     (if b = 0 then (if a = 0 then NaN else PosInf) else Finite (of_nat a / of_nat b))"

definition np_times :: "npfloat \<Rightarrow> rat \<Rightarrow> npfloat" where
  "np_times x k = (case x of Finite r \<Rightarrow> Finite (r * k) | NaN \<Rightarrow> NaN | PosInf \<Rightarrow> PosInf)"

definition len_df :: "DataFrame \<Rightarrow> nat" where
  "len_df df = length (index df)"

definition column_names :: "DataFrame \<Rightarrow> string list" where
  "column_names df = map fst (columns df)"

definition df_size :: "DataFrame \<Rightarrow> nat" where
  "df_size df = len_df df * length (columns df)"

text \<open>\<^verbatim>\<open>series.isna().sum()\<close> and \<^verbatim>\<open>series.nunique()\<close> (distinct non-missing values).\<close>

definition isna_sum :: "series \<Rightarrow> nat" where
  "isna_sum s = length (filter (\<lambda>v. v = NA) (vals s))"

definition notna_count :: "series \<Rightarrow> nat" where
  "notna_count s = length (filter (\<lambda>v. v \<noteq> NA) (vals s))"

definition nunique :: "series \<Rightarrow> nat" where
  "nunique s = length (remdups (filter (\<lambda>v. v \<noteq> NA) (vals s)))"

text \<open>\<^verbatim>\<open>df.isna().sum().sum()\<close> and \<^verbatim>\<open>df.isna().any().sum()\<close>.\<close>

definition df_isna_sum_sum :: "DataFrame \<Rightarrow> nat" where
  "df_isna_sum_sum df = sum_list (map (\<lambda>c. isna_sum (snd c)) (columns df))"



text \<open>
  \<^verbatim>\<open>pd.api.types.is_numeric_dtype\<close>: integer, unsigned, floating, complex and boolean
  storage.
\<close>

definition is_numeric_dtype :: "string \<Rightarrow> bool" where
  "is_numeric_dtype d =
     (d \<in> set [''int8'', ''int16'', ''int32'', ''int64'',
               ''uint8'', ''uint16'', ''uint32'', ''uint64'',
               ''float16'', ''float32'', ''float64'',
               ''complex64'', ''complex128'', ''bool''])"


text \<open>\<^verbatim>\<open>target and target in df.columns\<close>.\<close>

definition target_in_columns :: "string option \<Rightarrow> DataFrame \<Rightarrow> bool" where
  "target_in_columns target df =
     (case target of None \<Rightarrow> False | Some t \<Rightarrow> t \<noteq> [] \<and> t \<in> set (column_names df))"

text \<open>\<^verbatim>\<open>df[target].dtype in ['int64', 'float64']\<close>, for a target that is a column.\<close>

definition target_dtype_in :: "string list \<Rightarrow> string option \<Rightarrow> DataFrame \<Rightarrow> bool" where
  "target_dtype_in ds target df =
     (case target of
        None \<Rightarrow> False
      | Some t \<Rightarrow> (case map_of (columns df) t of None \<Rightarrow> False | Some s \<Rightarrow> dtype s \<in> set ds))"

text \<open>
  The rows of the frame, and \<^verbatim>\<open>df.duplicated()\<close>: a row is flagged when an equal row
  stands before it (missing cells compare equal to each other). pandas returns an empty
  mask for a frame with no rows or no columns.
\<close>

definition df_rows :: "DataFrame \<Rightarrow> cell list list" where
  "df_rows df = map (\<lambda>i. map (\<lambda>c. vals (snd c) ! i) (columns df)) [0..<length (index df)]"

fun dup_flags :: "'a list \<Rightarrow> 'a list \<Rightarrow> bool list" where
  "dup_flags seen [] = []"
| "dup_flags seen (r # rs) = (r \<in> set seen) # dup_flags (r # seen) rs"

definition df_empty :: "DataFrame \<Rightarrow> bool" where
  "df_empty df = (index df = [] \<or> columns df = [])"

definition duplicated :: "DataFrame \<Rightarrow> bool list" where
  "duplicated df = (if df_empty df then [] else dup_flags [] (df_rows df))"

definition duplicated_sum :: "DataFrame \<Rightarrow> nat" where
  "duplicated_sum df = length (filter id (duplicated df))"

text \<open>\<^verbatim>\<open>df.duplicated(keep=False)\<close>: every row that has an equal row elsewhere.\<close>

definition duplicated_keep_false :: "DataFrame \<Rightarrow> bool list" where
  "duplicated_keep_false df =
     (if df_empty df then []
      else map (\<lambda>r. 1 < count_list (df_rows df) r) (df_rows df))"

text \<open>
  \<^verbatim>\<open>df.groupby(list(df.columns)).size()\<close>: one group per distinct row, with its
  number of rows. pandas drops every row whose key holds a missing value (the default
  \<^verbatim>\<open>dropna=True\<close>), and every column is a key here. Groups are listed by first
  occurrence; the source goes on to sort them by size and keeps the sizes only.
\<close>

definition groupby_size :: "cell list list \<Rightarrow> (cell list \<times> nat) list" where
  "groupby_size rs =
     (let kept = filter (\<lambda>r. NA \<notin> set r) rs
      in map (\<lambda>k. (k, count_list kept k)) (rev (remdups (rev kept))))"

text \<open>\<^verbatim>\<open>sort_values(ascending=False)\<close> on a series of counts.\<close>

definition sort_desc :: "nat list \<Rightarrow> nat list" where
  "sort_desc xs = rev (sort xs)"


text \<open>\<^verbatim>\<open>df[col]\<close>: KeyError for a name that is not a column.\<close>

definition getitem :: "DataFrame \<Rightarrow> string \<Rightarrow> error + series" where
  "getitem df col = (case map_of (columns df) col of None \<Rightarrow> Inl KeyError | Some s \<Rightarrow> Inr s)"

text \<open>Sequencing of fallible steps: an exception ends the call.\<close>

definition try_bind :: "error + 'a \<Rightarrow> ('a \<Rightarrow> error + 'b) \<Rightarrow> error + 'b" where
  "try_bind m f = (case m of Inl e \<Rightarrow> Inl e | Inr x \<Rightarrow> f x)"

section \<open>Overview statistics\<close>

text \<open>
  \<^verbatim>\<open>_calculate_overview_stats\<close>. \<^verbatim>\<open>missing_cells\<close> and \<^verbatim>\<open>duplicate_rows\<close> are numpy
  integers, so the two percentages are numpy divisions. The memory fields are left out.
\<close>

record overview_stats =
  ov_rows :: nat
  ov_columns :: nat
  duplicate_rows :: nat
  duplicate_rows_pct :: npfloat
  missing_cells :: nat
  missing_cells_pct :: npfloat

definition calculate_overview_stats :: "DataFrame \<Rightarrow> overview_stats" where
  "calculate_overview_stats df =
     (let total_cells = df_size df;
          missing_cells = df_isna_sum_sum df;
          duplicate_rows = duplicated_sum df
      in \<lparr> ov_rows = len_df df,
           ov_columns = length (columns df),
           duplicate_rows = duplicate_rows,
           duplicate_rows_pct = np_times (np_truediv duplicate_rows (len_df df)) 100,
           missing_cells = missing_cells,
           missing_cells_pct = np_times (np_truediv missing_cells total_cells) 100 \<rparr>)"

section \<open>Column profile\<close>

text \<open>
  \<^verbatim>\<open>_analyze_variable\<close>. \<^verbatim>\<open>total_count = len(series)\<close> and
  \<^verbatim>\<open>distinct_count = series.nunique()\<close> are Python ints, \<^verbatim>\<open>missing_count\<close> is a numpy
  integer. The dictionary literal evaluates \<^verbatim>\<open>distinct_pct\<close> before
  \<^verbatim>\<open>missing_pct\<close>. \<open>numeric_statistics\<close> tells which branch filled the statistics
  (describe for a numeric dtype, the mode otherwise); \<open>target_plot\<close> tells whether the
  key \<^verbatim>\<open>target_plot\<close> is set.
\<close>

record var_stats =
  var_name :: string
  var_type :: string
  distinct_count :: nat
  distinct_pct :: rat
  missing_count :: nat
  missing_pct :: npfloat
  numeric_statistics :: bool
  target_plot :: bool

definition analyze_variable :: "DataFrame \<Rightarrow> string \<Rightarrow> string option \<Rightarrow> error + var_stats" where
  "analyze_variable df column target =
     try_bind (getitem df column) (\<lambda>s.
       let total_count = length (vals s);
           missing_count = isna_sum s;
           distinct_count = nunique s
       in try_bind (py_truediv distinct_count total_count) (\<lambda>distinct_ratio.
            Inr \<lparr> var_name = column,
                  var_type = dtype s,
                  distinct_count = distinct_count,
                  distinct_pct = distinct_ratio * 100,
                  missing_count = missing_count,
                  missing_pct = np_times (np_truediv missing_count total_count) 100,
                  numeric_statistics = is_numeric_dtype (dtype s),
                  target_plot =
                    (if is_numeric_dtype (dtype s) then target_in_columns target df
                     else target_in_columns target df \<and>
                          target_dtype_in [''int64'', ''float64''] target df) \<rparr>))"

section \<open>Summary plots and duplicates\<close>



text \<open>
  \<^verbatim>\<open>_analyze_duplicates\<close>. Every entry carries the same sample: the first five index
  labels of the rows flagged by \<^verbatim>\<open>df.duplicated(keep=False)\<close> (the source joins them
  into one string).
\<close>

record duplicate_sample =
  dup_count :: nat
  dup_rows :: "nat list"

definition analyze_duplicates :: "DataFrame \<Rightarrow> duplicate_sample list" where
  "analyze_duplicates df =
     (if duplicated_sum df = 0 then []
      else
        let dup_counts = sort_desc (filter (\<lambda>n. 1 < n) (map snd (groupby_size (df_rows df))));
            sample = take 5 (map fst (filter snd (zip (index df) (duplicated_keep_false df))))
        in map (\<lambda>c. \<lparr> dup_count = c, dup_rows = sample \<rparr>) (take 10 dup_counts))"

section \<open>Report model for the JSON export\<close>










section \<open>The entry point profile\<close>








section \<open>Comparison of two frames\<close>



text \<open>
  \<^verbatim>\<open>sorted(list(cols1 - cols2))\<close> and \<^verbatim>\<open>sorted(list(cols1 & cols2))\<close> on the sets of
  column names: Python compares strings lexicographically by code point.
\<close>

definition sorted_difference :: "string list \<Rightarrow> string list \<Rightarrow> string list" where
  "sorted_difference cols1 cols2 = sort (remdups (filter (\<lambda>c. c \<notin> set cols2) cols1))"

definition sorted_intersection :: "string list \<Rightarrow> string list \<Rightarrow> string list" where
  "sorted_intersection cols1 cols2 = sort (remdups (filter (\<lambda>c. c \<in> set cols2) cols1))"






section \<open>Concrete frames\<close>

text \<open>Scenario 1 of the specification: age, city and target over four rows.\<close>

definition scenario1 :: DataFrame where
  "scenario1 =
     \<lparr> index = [0, 1, 2, 3],
       columns =
         [(''age'', \<lparr> dtype = ''float64'', vals = [FloatV 25, FloatV 30, NA, FloatV 40] \<rparr>),
          (''city'', \<lparr> dtype = ''object'',
                      vals = [StrV ''NY'', StrV ''LA'', StrV ''NY'', StrV ''SF''] \<rparr>),
          (''target'', \<lparr> dtype = ''int64'', vals = [IntV 1, IntV 0, IntV 1, IntV 1] \<rparr>)] \<rparr>"


text \<open>
  Ten rows, one column: the first two rows are equal and hold a missing value, the
  other eight are pairwise different.
\<close>

definition dup_pair_missing :: DataFrame where
  "dup_pair_missing =
     \<lparr> index = [0, 1, 2, 3, 4, 5, 6, 7, 8, 9],
       columns =
         [(''x'', \<lparr> dtype = ''float64'',
                   vals = [NA, NA, FloatV 1, FloatV 2, FloatV 3, FloatV 4,
                           FloatV 5, FloatV 6, FloatV 7, FloatV 8] \<rparr>)] \<rparr>"

text \<open>Ten rows, two columns: rows 0 and 1 are equal, without missing values.\<close>

definition dup_pair :: DataFrame where
  "dup_pair =
     \<lparr> index = [0, 1, 2, 3, 4, 5, 6, 7, 8, 9],
       columns =
         [(''x'', \<lparr> dtype = ''int64'',
                   vals = [IntV 1, IntV 1, IntV 2, IntV 3, IntV 4, IntV 5,
                           IntV 6, IntV 7, IntV 8, IntV 9] \<rparr>),
          (''y'', \<lparr> dtype = ''object'',
                   vals = [StrV ''a'', StrV ''a'', StrV ''a'', StrV ''b'', StrV ''c'', StrV ''d'',
                           StrV ''e'', StrV ''f'', StrV ''g'', StrV ''h''] \<rparr>)] \<rparr>"










section \<open>Basic facts\<close>

lemma try_bind_Inl [simp]: "try_bind (Inl e) f = Inl e"
  by (simp add: try_bind_def)

lemma try_bind_Inr [simp]: "try_bind (Inr x) f = f x"
  by (simp add: try_bind_def)







lemma py_truediv_Inr: "0 < b \<Longrightarrow> py_truediv a b = Inr (of_nat a / of_nat b)"
  by (simp add: py_truediv_def)

lemma py_truediv_zero: "py_truediv a 0 = Inl ZeroDivisionError"
  by (simp add: py_truediv_def)

lemma analyze_variable_zero:
  "getitem df col = Inr s \<Longrightarrow> vals s = [] \<Longrightarrow> analyze_variable df col target = Inl ZeroDivisionError"
  by (simp add: analyze_variable_def py_truediv_def)

lemma analyze_variable_rows:
  "getitem df col = Inr s \<Longrightarrow> vals s \<noteq> [] \<Longrightarrow>
   analyze_variable df col target =
     Inr \<lparr> var_name = col, var_type = dtype s, distinct_count = nunique s,
           distinct_pct = of_nat (nunique s) / of_nat (length (vals s)) * 100,
           missing_count = isna_sum s,
           missing_pct = Finite (of_nat (isna_sum s) / of_nat (length (vals s)) * 100),
           numeric_statistics = is_numeric_dtype (dtype s),
           target_plot =
             (if is_numeric_dtype (dtype s) then target_in_columns target df
              else target_in_columns target df \<and>
                   target_dtype_in [''int64'', ''float64''] target df) \<rparr>"
  by (simp add: analyze_variable_def py_truediv_def np_truediv_def np_times_def Let_def)









section \<open>The size guard\<close>



section \<open>Column counts\<close>

lemma isna_notna_total: "isna_sum s + notna_count s = length (vals s)"
  unfolding isna_sum_def notna_count_def by (rule sum_length_filter_compl)

lemma nunique_card: "nunique s = card (set (vals s) - {NA})"
proof -
  have "set (filter (\<lambda>v. v \<noteq> NA) (vals s)) = set (vals s) - {NA}" by auto
  then show ?thesis by (simp add: nunique_def length_remdups_card_conv)
qed

lemma nunique_le_notna: "nunique s \<le> notna_count s"
  unfolding nunique_def notna_count_def by (rule length_remdups_leq)

lemma analyze_variable_Inr_iff:
  "(analyze_variable df col target = Inr v) =
     (\<exists>s. getitem df col = Inr s \<and> vals s \<noteq> [] \<and>
        v = \<lparr> var_name = col, var_type = dtype s, distinct_count = nunique s,
              distinct_pct = of_nat (nunique s) / of_nat (length (vals s)) * 100,
              missing_count = isna_sum s,
              missing_pct = Finite (of_nat (isna_sum s) / of_nat (length (vals s)) * 100),
              numeric_statistics = is_numeric_dtype (dtype s),
              target_plot =
                (if is_numeric_dtype (dtype s) then target_in_columns target df
                 else target_in_columns target df \<and>
                      target_dtype_in [''int64'', ''float64''] target df) \<rparr>)"
proof (cases "getitem df col")
  case (Inl e)
  then show ?thesis by (simp add: analyze_variable_def)
next
  case (Inr s)
  show ?thesis
  proof (cases "vals s = []")
    case True
    with Inr show ?thesis using analyze_variable_zero [of df col s target] by simp
  next
    case False
    with Inr show ?thesis using analyze_variable_rows [of df col s target] by auto
  qed
qed

text \<open>
  Claim C8. Whenever \<^verbatim>\<open>_analyze_variable\<close> returns a profile for a column, its
  \<^verbatim>\<open>missing_count\<close> plus the number of non-missing cells equals \<^verbatim>\<open>total_count\<close>
  (the length of the column); \<^verbatim>\<open>distinct_count\<close> is the number of distinct
  non-missing values, so it is at most the number of non-missing cells. The all-missing
  and the all-present column are the two extremes of the same equation.
\<close>

theorem analyze_variable_counts:
  "analyze_variable df column target = Inr v \<Longrightarrow>
   \<exists>s. getitem df column = Inr s \<and>
       missing_count v + notna_count s = length (vals s) \<and>
       distinct_count v = card (set (vals s) - {NA}) \<and>
       distinct_count v \<le> notna_count s \<and>
       (notna_count s = 0) = (missing_count v = length (vals s)) \<and>
       (missing_count v = 0) = (notna_count s = length (vals s))"
proof -
  assume "analyze_variable df column target = Inr v"
  then obtain s where s: "getitem df column = Inr s"
    and m: "missing_count v = isna_sum s" and d: "distinct_count v = nunique s"
    by (auto simp: analyze_variable_Inr_iff)
  have t: "isna_sum s + notna_count s = length (vals s)" by (rule isna_notna_total)
  from s m d t show ?thesis
    using nunique_card [of s] nunique_le_notna [of s] by auto
qed

theorem analyze_variable_counts_witness:
  "\<exists>v s. analyze_variable scenario1 ''age'' (Some ''target'') = Inr v \<and>
         getitem scenario1 ''age'' = Inr s \<and>
         missing_count v + notna_count s = length (vals s) \<and>
         length (vals s) = 4 \<and> missing_count v = 1 \<and> notna_count s = 3 \<and>
         distinct_count v = 3"
proof -
  let ?s = "\<lparr> dtype = ''float64'', vals = [FloatV 25, FloatV 30, NA, FloatV 40] \<rparr>"
  have g: "getitem scenario1 ''age'' = Inr ?s"
    by (simp add: getitem_def scenario1_def)
  have "vals ?s \<noteq> []" by simp
  then obtain v where v: "analyze_variable scenario1 ''age'' (Some ''target'') = Inr v"
    using analyze_variable_rows [OF g] by blast
  from analyze_variable_counts [OF v] g
  have "missing_count v + notna_count ?s = length (vals ?s)"
    and "distinct_count v = card (set (vals ?s) - {NA})" by auto
  then have "missing_count v + notna_count ?s = length (vals ?s) \<and>
         length (vals ?s) = 4 \<and> missing_count v = 1 \<and> notna_count ?s = 3 \<and>
         distinct_count v = 3"
    by (simp add: notna_count_def)
  with v g show ?thesis by blast
qed

section \<open>Division by the row count\<close>





section \<open>The report model\<close>















section \<open>Optional sections\<close>









section \<open>A target that is not a column\<close>









section \<open>Comparison\<close>

lemma sorted_difference_set [simp]:
  "set (sorted_difference xs ys) = set xs - set ys"
  by (auto simp: sorted_difference_def)

lemma sorted_intersection_set [simp]:
  "set (sorted_intersection xs ys) = set xs \<inter> set ys"
  by (auto simp: sorted_intersection_def)





















section \<open>Duplicate analysis\<close>

text \<open>
  What \<^verbatim>\<open>_analyze_duplicates\<close> returns in general: at most ten entries, counts above
  one in descending order, each with at most five index labels of the frame. For a frame
  without missing values that has exactly one duplicated pair, the result is one entry
  with count 2, and the overview counts one duplicate row.
\<close>

lemma dup_flags_count:
  "length (filter id (dup_flags seen rs)) + card (set rs - set seen) = length rs"
proof (induction rs arbitrary: seen)
  case Nil
  then show ?case by simp
next
  case (Cons r rs)
  have ih: "length (filter id (dup_flags (r # seen) rs)) + card (set rs - set (r # seen))
      = length rs" by (rule Cons.IH)
  show ?case
  proof (cases "r \<in> set seen")
    case True
    then have e: "set (r # rs) - set seen = set rs - set (r # seen)" by auto
    have l: "length (r # rs) = Suc (length rs)" by simp
    have "length (filter id (dup_flags seen (r # rs)))
        = Suc (length (filter id (dup_flags (r # seen) rs)))"
      using True by simp
    with ih show ?thesis unfolding e l by linarith
  next
    case False
    have e: "set (r # rs) - set seen = insert r (set rs - set (r # seen))"
      using False by auto
    have n: "r \<notin> set rs - set (r # seen)" by simp
    have f: "finite (set rs - set (r # seen))" by simp
    have c: "card (set (r # rs) - set seen) = Suc (card (set rs - set (r # seen)))"
      unfolding e using n f by (rule_tac card_insert_disjoint)
    have l: "length (r # rs) = Suc (length rs)" by simp
    have "length (filter id (dup_flags seen (r # rs)))
        = length (filter id (dup_flags (r # seen) rs))"
      using False by simp
    with ih show ?thesis unfolding c l by linarith
  qed
qed

lemma one_pair_length:
  assumes "count_list rs r = 2" and "\<forall>k. k \<noteq> r \<longrightarrow> count_list rs k \<le> 1"
  shows "length rs = Suc (card (set rs))"
proof -
  have r: "r \<in> set rs" using assms(1) count_list_0_iff [of rs r] by auto
  have one: "\<forall>k \<in> set rs - {r}. count_list rs k = 1"
  proof
    fix k assume k: "k \<in> set rs - {r}"
    then have "count_list rs k \<noteq> 0" by (simp add: count_list_0_iff)
    moreover from k assms(2) have "count_list rs k \<le> 1" by simp
    ultimately show "count_list rs k = 1" by simp
  qed
  have "length rs = sum (count_list rs) (set rs)"
    by (simp add: sum_count_set)
  also have "\<dots> = count_list rs r + sum (count_list rs) (set rs - {r})"
    using r by (simp add: sum.remove)
  also have "\<dots> = 2 + card (set rs - {r})"
    using one assms(1) by simp
  also have "\<dots> = Suc (card (set rs))"
  proof -
    from r have "0 < card (set rs)" by (auto simp: card_gt_0_iff)
    with r show ?thesis by simp
  qed
  finally show ?thesis .
qed

lemma filter_single:
  "distinct ds \<Longrightarrow> r \<in> set ds \<Longrightarrow> \<forall>k \<in> set ds. P k = (k = r) \<Longrightarrow> filter P ds = [r]"
proof (induction ds)
  case Nil
  then show ?case by simp
next
  case (Cons d ds)
  show ?case
  proof (cases "d = r")
    case True
    with Cons.prems have "\<forall>k \<in> set ds. \<not> P k" by auto
    then have "filter P ds = []" by (simp add: filter_empty_conv)
    with True Cons.prems show ?thesis by simp
  next
    case False
    with Cons show ?thesis by auto
  qed
qed

lemma one_pair_groups:
  assumes "count_list rs r = 2" and "\<forall>k. k \<noteq> r \<longrightarrow> count_list rs k \<le> 1"
      and "\<forall>k \<in> set rs. NA \<notin> set k"
  shows "filter (\<lambda>n. 1 < n) (map snd (groupby_size rs)) = [2]"
proof -
  have kept: "filter (\<lambda>k. NA \<notin> set k) rs = rs" using assms(3) by (simp add: filter_id_conv)
  let ?ds = "rev (remdups (rev rs))"
  have r: "r \<in> set ?ds" using assms(1) count_list_0_iff [of rs r] by auto
  have "\<forall>k \<in> set ?ds. (1 < count_list rs k) = (k = r)"
  proof
    fix k
    show "(1 < count_list rs k) = (k = r)"
    proof (cases "k = r")
      case True
      with assms(1) show ?thesis by simp
    next
      case False
      with assms(2) have "count_list rs k \<le> 1" by simp
      with False show ?thesis by simp
    qed
  qed
  with r have "filter (\<lambda>k. 1 < count_list rs k) ?ds = [r]"
    by (intro filter_single) simp_all
  then have "filter (\<lambda>n. 1 < n) (map (count_list rs) ?ds) = [count_list rs r]"
    by (simp add: filter_map comp_def)
  with assms(1) kept show ?thesis
    by (simp add: groupby_size_def Let_def comp_def)
qed

lemma analyze_duplicates_one_pair:
  assumes "\<not> df_empty df"
      and "count_list (df_rows df) r = 2"
      and "\<forall>k. k \<noteq> r \<longrightarrow> count_list (df_rows df) k \<le> 1"
      and "\<forall>k \<in> set (df_rows df). NA \<notin> set k"
  shows "map dup_count (analyze_duplicates df) = [2] \<and>
         duplicate_rows (calculate_overview_stats df) = 1"
proof -
  have "length (filter id (dup_flags [] (df_rows df))) + card (set (df_rows df))
      = length (df_rows df)"
    using dup_flags_count [of "[]" "df_rows df"] by simp
  with one_pair_length [OF assms(2,3)] have d: "duplicated_sum df = 1"
    using assms(1) by (simp add: duplicated_sum_def duplicated_def)
  from one_pair_groups [OF assms(2,3,4)] d
  have "map dup_count (analyze_duplicates df) = [2]"
    by (simp add: analyze_duplicates_def Let_def sort_desc_def comp_def)
  with d show ?thesis by (simp add: calculate_overview_stats_def Let_def)
qed

lemma analyze_duplicates_unfold:
  "duplicated_sum df \<noteq> 0 \<Longrightarrow>
   analyze_duplicates df =
     map (\<lambda>c. \<lparr> dup_count = c,
                dup_rows = take 5 (map fst (filter snd (zip (index df) (duplicated_keep_false df)))) \<rparr>)
       (take 10 (sort_desc (filter (\<lambda>n. 1 < n) (map snd (groupby_size (df_rows df))))))"
  by (simp add: analyze_duplicates_def Let_def)

lemma duplicate_sample_subset:
  "set (take 5 (map fst (filter snd (zip (index df) (duplicated_keep_false df)))))
     \<subseteq> set (index df)"
proof
  fix x
  assume "x \<in> set (take 5 (map fst (filter snd (zip (index df) (duplicated_keep_false df)))))"
  then have "x \<in> set (map fst (filter snd (zip (index df) (duplicated_keep_false df))))"
    by (rule in_set_takeD)
  then show "x \<in> set (index df)" by (auto dest: set_zip_leftD)
qed

lemma top_counts_gt_one:
  "c \<in> set (take 10 (sort_desc (filter (\<lambda>n. 1 < n) xs))) \<Longrightarrow> 1 < c"
proof -
  assume "c \<in> set (take 10 (sort_desc (filter (\<lambda>n. 1 < n) xs)))"
  then have "c \<in> set (sort_desc (filter (\<lambda>n. 1 < n) xs))" by (rule in_set_takeD)
  then show "1 < c" by (simp add: sort_desc_def)
qed

lemma top_counts_descending: "sorted (rev (take 10 (sort_desc xs)))"
proof -
  have "sorted (rev (sort_desc xs))" by (simp add: sort_desc_def)
  then show ?thesis unfolding rev_take by (rule sorted_wrt_drop)
qed

lemma analyze_duplicates_length: "length (analyze_duplicates df) \<le> 10"
proof (cases "duplicated_sum df = 0")
  case True
  then show ?thesis by (simp add: analyze_duplicates_def)
next
  case False
  show ?thesis unfolding analyze_duplicates_unfold [OF False] by simp
qed

lemma analyze_duplicates_counts_descending:
  "sorted (rev (map dup_count (analyze_duplicates df)))"
proof (cases "duplicated_sum df = 0")
  case True
  then show ?thesis by (simp add: analyze_duplicates_def)
next
  case False
  have "map dup_count (analyze_duplicates df)
      = take 10 (sort_desc (filter (\<lambda>n. 1 < n) (map snd (groupby_size (df_rows df)))))"
    unfolding analyze_duplicates_unfold [OF False] by (simp add: comp_def)
  then show ?thesis by (simp only: top_counts_descending)
qed

lemma analyze_duplicates_entries:
  "e \<in> set (analyze_duplicates df) \<Longrightarrow>
   1 < dup_count e \<and> length (dup_rows e) \<le> 5 \<and> set (dup_rows e) \<subseteq> set (index df)"
proof (cases "duplicated_sum df = 0")
  case True
  assume "e \<in> set (analyze_duplicates df)"
  with True show ?thesis by (simp add: analyze_duplicates_def)
next
  case False
  assume "e \<in> set (analyze_duplicates df)"
  then obtain c where c: "c \<in> set (take 10 (sort_desc (filter (\<lambda>n. 1 < n)
        (map snd (groupby_size (df_rows df))))))"
    and e: "e = \<lparr> dup_count = c,
          dup_rows = take 5 (map fst (filter snd (zip (index df) (duplicated_keep_false df)))) \<rparr>"
    unfolding analyze_duplicates_unfold [OF False] by auto
  from c have "1 < c" by (rule top_counts_gt_one)
  with e show ?thesis using duplicate_sample_subset [of df] by simp
qed

lemma dup_pair_sample:
  "analyze_duplicates dup_pair = [\<lparr> dup_count = 2, dup_rows = [0, 1] \<rparr>] \<and>
   duplicate_rows (calculate_overview_stats dup_pair) = 1"
  by code_simp

text \<open>
  Claim C7, at a frame of ten rows whose only duplicated pair holds a missing value.
  \<^verbatim>\<open>df.duplicated()\<close> flags the second row of the pair, so the overview counts one
  duplicate row and the early return is not taken; \<^verbatim>\<open>groupby\<close> drops both rows of
  the pair, every remaining group has one row, and the analyzer returns no group where
  the claim says one group with count 2.
\<close>

theorem duplicate_pair_with_missing:
  "length (index dup_pair_missing) = 10 \<and>
   duplicate_rows (calculate_overview_stats dup_pair_missing) = 1 \<and>
   duplicated dup_pair_missing
     = [False, True, False, False, False, False, False, False, False, False] \<and>
   groupby_size (df_rows dup_pair_missing)
     = [([FloatV 1], 1), ([FloatV 2], 1), ([FloatV 3], 1), ([FloatV 4], 1),
        ([FloatV 5], 1), ([FloatV 6], 1), ([FloatV 7], 1), ([FloatV 8], 1)] \<and>
   analyze_duplicates dup_pair_missing = []"
  by code_simp

end
